theory Spec2Isabelle
  imports
    Main
    "HOL-Library.Word"
    "HOL-Library.Signed_Division"
    "HOL-Library.Monad_Syntax"
begin

unbundle bit_operations_syntax


section \<open>Runtime values and the type unifier\<close>

text \<open>
  A Go \<^verbatim>\<open>Value\<close> is \<^verbatim>\<open>interface{}\<close>: a dynamic type together with a value of it.
  The datatype lists the dynamic types that \<^verbatim>\<open>unifyType\<close> and \<^verbatim>\<open>getSelectorValue\<close>
  distinguish; every other dynamic type is \<open>VOther\<close>. \<^verbatim>\<open>int\<close> is the 64-bit platform
  integer. A \<^verbatim>\<open>time.Time\<close> is given by its Unix second and its nanosecond within that
  second (the arguments of \<^verbatim>\<open>time.Unix\<close>); a \<^verbatim>\<open>time.Duration\<close> is a signed 64-bit
  count of nanoseconds. Signed kinds are read with \<open>sint\<close>, unsigned ones with \<open>uint\<close>.
\<close>

datatype Value =
    VNil
  | VBool bool
  | VString string
  | VInt64 "64 word"
  | VInt64s "64 word list"
  | VStrings "string list"
  | VInt "64 word"
  | VInt32 "32 word"
  | VInt16 "16 word"
  | VInt8 "8 word"
  | VUint64 "64 word"
  | VUint32 "32 word"
  | VUint16 "16 word"
  | VUint8 "8 word"
  | VTime "64 word" "32 word"
  | VDuration "64 word"
  | VInts "64 word list"
  | VOther nat

text \<open>\<^verbatim>\<open>time.Second\<close>, in nanoseconds.\<close>

definition Second :: int where
  "Second = 1000000000"

text \<open>
  \<^verbatim>\<open>unifyType\<close> (the same text in both source files). \<^verbatim>\<open>int64(v)\<close> sign-extends a
  signed operand (\<open>scast\<close>) and zero-extends an unsigned one (\<open>ucast\<close>); on a 64-bit
  operand it keeps the bits. Go's \<^verbatim>\<open>/\<close> truncates towards zero (\<open>sdiv\<close>).
\<close>

fun unifyType :: "Value \<Rightarrow> Value" where
  "unifyType (VInt v) = VInt64 (scast v)"
| "unifyType (VTime sec nsec) = VInt64 sec"
| "unifyType (VDuration v) = VInt64 (word_of_int (sint v sdiv Second))"
| "unifyType (VInts v) = VInt64s (map scast v)"
| "unifyType (VInt32 v) = VInt64 (scast v)"
| "unifyType (VInt16 v) = VInt64 (scast v)"
| "unifyType (VInt8 v) = VInt64 (scast v)"
| "unifyType (VUint64 v) = VInt64 (ucast v)"
| "unifyType (VUint32 v) = VInt64 (ucast v)"
| "unifyType (VUint16 v) = VInt64 (ucast v)"
| "unifyType (VUint8 v) = VInt64 (ucast v)"
| "unifyType val = val"

text \<open>
  The kinds that the type switch of \<^verbatim>\<open>getSelectorValue\<close> returns untouched:
  \<^verbatim>\<open>case bool, string, int64, []int64, []string\<close>.
\<close>

fun canonical :: "Value \<Rightarrow> bool" where
  "canonical (VBool _) = True"
| "canonical (VString _) = True"
| "canonical (VInt64 _) = True"
| "canonical (VInt64s _) = True"
| "canonical (VStrings _) = True"
| "canonical _ = False"

text \<open>The number an integer-kinded value denotes.\<close>

fun int_value :: "Value \<Rightarrow> int option" where
  "int_value (VInt64 v) = Some (sint v)"
| "int_value (VInt v) = Some (sint v)"
| "int_value (VInt32 v) = Some (sint v)"
| "int_value (VInt16 v) = Some (sint v)"
| "int_value (VInt8 v) = Some (sint v)"
| "int_value (VUint64 v) = Some (uint v)"
| "int_value (VUint32 v) = Some (uint v)"
| "int_value (VUint16 v) = Some (uint v)"
| "int_value (VUint8 v) = Some (uint v)"
| "int_value _ = None"

text \<open>The integer kinds that \<^verbatim>\<open>unifyType\<close> converts to \<^verbatim>\<open>int64\<close>.\<close>

fun converted_int_kind :: "Value \<Rightarrow> bool" where
  "converted_int_kind (VInt _) = True"
| "converted_int_kind (VInt32 _) = True"
| "converted_int_kind (VInt16 _) = True"
| "converted_int_kind (VInt8 _) = True"
| "converted_int_kind (VUint64 _) = True"
| "converted_int_kind (VUint32 _) = True"
| "converted_int_kind (VUint16 _) = True"
| "converted_int_kind (VUint8 _) = True"
| "converted_int_kind _ = False"

text \<open>The one converted kind that is as wide as the target: \<^verbatim>\<open>uint64\<close> above \<open>2^63 - 1\<close>.\<close>

fun uint64_above_int64 :: "Value \<Rightarrow> bool" where
  "uint64_above_int64 (VUint64 v) = (9223372036854775808 \<le> uint v)"
| "uint64_above_int64 _ = False"


text \<open>Whether a value is a Go \<^verbatim>\<open>string\<close>: what the assertion \<^verbatim>\<open>n.value.(string)\<close> tests.\<close>

fun is_string :: "Value \<Rightarrow> bool" where
  "is_string (VString _) = True"
| "is_string _ = False"


section \<open>The compiled expression and the context (engine.go)\<close>

text \<open>
  \<^verbatim>\<open>int16\<close>, \<^verbatim>\<open>int8\<close> and \<^verbatim>\<open>uint8\<close> values are integers within their ranges; \<open>i16\<close>
  is the wrap-around of \<^verbatim>\<open>int16\<close> arithmetic, applied to every sum and difference the
  source computes in \<^verbatim>\<open>int16\<close>.
\<close>

definition i16 :: "int \<Rightarrow> int" where
  "i16 x = (x + 32768) mod 65536 - 32768"

type_synonym SelectorKey = int

text \<open>An \<^verbatim>\<open>error\<close> made outside the VM, by the context or by an operator.\<close>

type_synonym ext_error = string

text \<open>
  The errors \<^verbatim>\<open>Eval\<close> returns: an error of the context handed on as it is
  (\<^verbatim>\<open>return nil, err\<close>), the \<^verbatim>\<open>fmt.Errorf("operator execution error, operator: %v, error: %w", x, err)\<close>
  that wraps an operator's error and prints \<open>x\<close>, and the
  \<^verbatim>\<open>fmt.Errorf("eval error, result type of if condition should be bool, got: [%v]", res)\<close>.
\<close>

datatype error =
    External ext_error
  | OperatorExecution Value ext_error
  | CondResultType Value

text \<open>\<^verbatim>\<open>errors.Unwrap\<close>: only the \<^verbatim>\<open>%w\<close> error wraps another one.\<close>

fun Unwrap :: "error \<Rightarrow> ext_error option" where
  "Unwrap (OperatorExecution x err) = Some err"
| "Unwrap _ = None"

text \<open>How a call of \<^verbatim>\<open>Eval\<close> ends: with a value, with an error, or in a run-time panic.\<close>

datatype outcome = Return Value | Fail error | Panic

text \<open>
  The context: the embedded \<^verbatim>\<open>Selector\<close> with its method \<^verbatim>\<open>Get\<close>, and the
  \<^verbatim>\<open>context.Context\<close>, of which only the state of its cancellation token matters.
\<close>

datatype Context = Live | Cancelled

record Ctx =
  Get :: "SelectorKey \<Rightarrow> string \<Rightarrow> ext_error + Value"
  Ctx :: Context

type_synonym Operator = "Ctx \<Rightarrow> Value list \<Rightarrow> ext_error + Value"

definition nodeTypeMask :: int where "nodeTypeMask = 7"
definition constant_type :: int where "constant_type = 1"
definition selector_type :: int where "selector_type = 2"
definition operator_type :: int where "operator_type = 3"
definition fastOperator_type :: int where "fastOperator_type = 4"
definition cond_type :: int where "cond_type = 5"
definition end_type :: int where "end_type = 6"
definition debug_type :: int where "debug_type = 7"
definition scIfFalse :: int where "scIfFalse = 8"
definition scIfTrue :: int where "scIfTrue = 16"

text \<open>A \<^verbatim>\<open>nil\<close> function value is \<open>None\<close>.\<close>

record node =
  flag :: int
  childCnt :: int
  scIdx :: int
  childIdx :: int
  selKey :: SelectorKey
  "value" :: Value
  operator :: "Operator option"

definition getNodeType :: "node \<Rightarrow> int" where
  "getNodeType n = flag n AND nodeTypeMask"

text \<open>
  \<^verbatim>\<open>nodes\<close> is a slice of pointers: a \<^verbatim>\<open>nil\<close> element is \<open>None\<close>. The field
  \<^verbatim>\<open>Expr.scIdx\<close> is \<open>scIdxs\<close> here (\<^verbatim>\<open>Eval\<close> of engine.go reads \<^verbatim>\<open>node.scIdx\<close>).
\<close>

record Expr =
  maxStackSize :: int
  nodes :: "node option list"
  parentIdx :: "int list"
  scIdxs :: "int list"
  sfSize :: "int list"
  osSize :: "int list"

text \<open>
  What the VM does that the claims speak of, in order: each call of \<^verbatim>\<open>ctx.Get\<close> (with
  the key and the name passed) and each call of an operator (with its parameters),
  tagged with the index of the node on whose behalf the call is made; each first visit
  of an \<^verbatim>\<open>operator\<close> or \<^verbatim>\<open>cond\<close> node (the branch \<^verbatim>\<open>curtIdx > maxIdx\<close>); and each
  rewind of the short-circuit loop, with its target and the value of \<^verbatim>\<open>sfTop\<close> before
  and after it. The trace is a ghost variable: nothing reads it.
\<close>

datatype event =
    GetCalled int SelectorKey string
  | OpCalled int "Value list"
  | Entered int
  | Rewound int int int

text \<open>The node that a call is made for.\<close>

fun call_node :: "event \<Rightarrow> int option" where
  "call_node (GetCalled i key name) = Some i"
| "call_node (OpCalled i param) = Some i"
| "call_node (Entered i) = None"
| "call_node (Rewound t before after) = None"

text \<open>The nodes that have had their first visit.\<close>

fun entered :: "event list \<Rightarrow> int list" where
  "entered [] = []"
| "entered (Entered i # evs) = i # entered evs"
| "entered (ev # evs) = entered evs"


text \<open>The local variables of \<^verbatim>\<open>Eval\<close> that live across iterations of its loop.\<close>

record vm =
  sf :: "int list"
  sfTop :: int
  os :: "Value list"
  osTop :: int
  maxIdx :: int
  scTriggered :: bool
  trace :: "event list"

text \<open>An index expression \<^verbatim>\<open>xs[i]\<close> panics unless \<open>0 \<le> i < len(xs)\<close>.\<close>

definition valid_index :: "'a list \<Rightarrow> int \<Rightarrow> bool" where
  "valid_index xs i = (0 \<le> i \<and> i < int (length xs))"

text \<open>\<^verbatim>\<open>nodes[i]\<close> followed by a field access: \<open>None\<close> is the panic of either.\<close>

definition node_at :: "Expr \<Rightarrow> int \<Rightarrow> node option" where
  "node_at e i = (if valid_index (nodes e) i then nodes e ! nat i else None)"

section \<open>Reading leaves (engine.go)\<close>

text \<open>
  The helpers return the trace extended by the calls they made, with either the value or
  the way \<^verbatim>\<open>Eval\<close> ends. \<^verbatim>\<open>n.value.(string)\<close> is a type assertion without the
  \<^verbatim>\<open>ok\<close> result: it panics on anything but a string, before \<^verbatim>\<open>ctx.Get\<close> is called.
\<close>

definition getSelectorValue ::
  "Ctx \<Rightarrow> int \<Rightarrow> node \<Rightarrow> event list \<Rightarrow> (outcome + Value) \<times> event list" where
  "getSelectorValue ctx i n tr =
     (case value n of
        VString name \<Rightarrow>
          (case Get ctx (selKey n) name of
             Inl err \<Rightarrow> (Inl (Fail (External err)), tr @ [GetCalled i (selKey n) name])
           | Inr res \<Rightarrow>
               (Inr (if canonical res then res else unifyType res),
                tr @ [GetCalled i (selKey n) name]))
      | _ \<Rightarrow> (Inl Panic, tr))"

definition getNodeValue ::
  "Ctx \<Rightarrow> int \<Rightarrow> node \<Rightarrow> event list \<Rightarrow> (outcome + Value) \<times> event list" where
  "getNodeValue ctx i n tr =
     (if flag n AND nodeTypeMask = constant_type then (Inr (value n), tr)
      else getSelectorValue ctx i n tr)"

text \<open>
  The parameters of a \<^verbatim>\<open>fastOperator\<close>: the children at the given indices, read in
  order with \<^verbatim>\<open>getNodeValue\<close>; the first error or panic ends the evaluation.
\<close>

fun getNodeValues ::
  "Expr \<Rightarrow> Ctx \<Rightarrow> int list \<Rightarrow> event list \<Rightarrow> (outcome + Value list) \<times> event list" where
  "getNodeValues e ctx [] tr = (Inr [], tr)"
| "getNodeValues e ctx (i # js) tr =
     (case node_at e i of
        None \<Rightarrow> (Inl Panic, tr)
      | Some child \<Rightarrow>
          (case getNodeValue ctx i child tr of
             (Inl out, tr') \<Rightarrow> (Inl out, tr')
           | (Inr v, tr') \<Rightarrow>
               (case getNodeValues e ctx js tr' of
                  (Inl out, tr'') \<Rightarrow> (Inl out, tr'')
                | (Inr vs, tr'') \<Rightarrow> (Inr (v # vs), tr''))))"

text \<open>
  \<^verbatim>\<open>res, err = curt.operator(ctx, param)\<close> and the error return after it. Calling a
  \<^verbatim>\<open>nil\<close> function panics.
\<close>

definition call_operator ::
  "Ctx \<Rightarrow> int \<Rightarrow> node \<Rightarrow> Value list \<Rightarrow> event list \<Rightarrow> (outcome + Value) \<times> event list" where
  "call_operator ctx i curt param tr =
     (case operator curt of
        None \<Rightarrow> (Inl Panic, tr)
      | Some f \<Rightarrow>
          (case f ctx param of
             Inl err \<Rightarrow> (Inl (Fail (OperatorExecution (value curt) err)), tr @ [OpCalled i param])
           | Inr res \<Rightarrow> (Inr res, tr @ [OpCalled i param])))"

section \<open>The stacks (engine.go)\<close>

text \<open>
  The statements on the two stacks are the same text in both source files; only the
  integer type of the indices differs (\<^verbatim>\<open>int16\<close> in engine.go, \<^verbatim>\<open>int\<close> in the
  bytecode variant). They take the wrap-around \<open>w\<close> of that type as a parameter.

  \<^verbatim>\<open>sf[sfTop+1], sfTop = x, sfTop+1\<close>; \<open>None\<close> is the panic of the index expression.
\<close>

definition push_sf :: "(int \<Rightarrow> int) \<Rightarrow> int \<Rightarrow> vm \<Rightarrow> vm option" where
  "push_sf w x s =
     (let i = w (sfTop s + 1)
      in if valid_index (sf s) i then Some (s\<lparr>sf := (sf s)[nat i := x], sfTop := i\<rparr>) else None)"

text \<open>\<^verbatim>\<open>os[osTop+1], osTop = res, osTop+1\<close>.\<close>

definition push_os :: "(int \<Rightarrow> int) \<Rightarrow> Value \<Rightarrow> vm \<Rightarrow> vm option" where
  "push_os w x s =
     (let i = w (osTop s + 1)
      in if valid_index (os s) i then Some (s\<lparr>os := (os s)[nat i := x], osTop := i\<rparr>) else None)"

text \<open>\<^verbatim>\<open>res, osTop = os[osTop], osTop-1\<close>.\<close>

definition pop_os :: "(int \<Rightarrow> int) \<Rightarrow> vm \<Rightarrow> (Value \<times> vm) option" where
  "pop_os w s =
     (if valid_index (os s) (osTop s)
      then Some (os s ! nat (osTop s), s\<lparr>osTop := w (osTop s - 1)\<rparr>) else None)"

text \<open>
  The loop \<^verbatim>\<open>for i := int16(0); i < cnt; i++ { sf[sfTop-i] = childIdx + i }\<close> over the
  given values of \<open>i\<close>, with \<open>tp\<close> the new \<^verbatim>\<open>sfTop\<close>.
\<close>

fun store_children ::
  "(int \<Rightarrow> int) \<Rightarrow> int list \<Rightarrow> int \<Rightarrow> int \<Rightarrow> int list \<Rightarrow> int list option" where
  "store_children w fr tp cidx [] = Some fr"
| "store_children w fr tp cidx (i # js) =
     (if valid_index fr (w (tp - i))
      then store_children w (fr[nat (w (tp - i)) := w (cidx + i)]) tp cidx js
      else None)"

text \<open>
  The parameters of an \<^verbatim>\<open>operator\<close> on its second visit:
  \<^verbatim>\<open>osTop = osTop - cnt\<close>, then the two reads \<^verbatim>\<open>os[osTop+1], os[osTop+2]\<close> when
  \<open>cnt = 2\<close>, and otherwise \<^verbatim>\<open>make([]Value, cnt)\<close> (a panic when \<open>cnt < 0\<close>) and
  \<^verbatim>\<open>copy(param, os[osTop+1:])\<close>: the slice expression panics unless
  \<open>0 \<le> osTop+1 \<le> len(os)\<close>, and \<^verbatim>\<open>copy\<close> leaves \<^verbatim>\<open>nil\<close> where the source is too short.
\<close>

definition take_params :: "(int \<Rightarrow> int) \<Rightarrow> int \<Rightarrow> vm \<Rightarrow> (Value list \<times> vm) option" where
  "take_params w cnt s =
     (let tp = w (osTop s - cnt)
      in if cnt = 2 then
           (if valid_index (os s) (w (tp + 1)) \<and> valid_index (os s) (w (tp + 2))
            then Some ([os s ! nat (w (tp + 1)), os s ! nat (w (tp + 2))], s\<lparr>osTop := tp\<rparr>)
            else None)
         else if cnt < 0 then None
         else if 0 \<le> w (tp + 1) \<and> w (tp + 1) \<le> int (length (os s)) then
           Some (take (nat cnt) (drop (nat (w (tp + 1))) (os s))
                   @ replicate (nat cnt - (length (os s) - nat (w (tp + 1)))) VNil,
                 s\<lparr>osTop := tp\<rparr>)
         else None)"

section \<open>Debug nodes (engine.go)\<close>

text \<open>
  \<^verbatim>\<open>debugStackFrame\<close>: every frame below index \<^verbatim>\<open>sfTop\<close> that is at least \<open>offset\<close> is
  lowered by \<open>offset\<close>. The loop runs over \<open>0 \<le> i < sfTop\<close> and indexes \<^verbatim>\<open>sf[i]\<close>, so
  it panics when \<open>sfTop\<close> exceeds the length of the array.
\<close>

definition debugStackFrame ::
  "(int \<Rightarrow> int) \<Rightarrow> int list \<Rightarrow> int \<Rightarrow> int \<Rightarrow> int list option" where
  "debugStackFrame w fr tp offset =
     (if int (length fr) < tp then None
      else Some (map (\<lambda>(i, x). if int i < tp \<and> offset \<le> x then w (x - offset) else x)
                   (zip [0..<length fr] fr)))"

text \<open>
  \<^verbatim>\<open>printStacks\<close> writes to standard output only; what matters to \<^verbatim>\<open>Eval\<close> is whether
  it panics: it reads \<^verbatim>\<open>e.nodes[sf[i]].value\<close> for \<open>i\<close> from \<open>sfTop\<close> down to 0 and
  \<^verbatim>\<open>os[i]\<close> for \<open>i\<close> from \<open>osTop\<close> down to 0.
\<close>

definition printStacks_panics :: "node option list \<Rightarrow> vm \<Rightarrow> bool" where
  "printStacks_panics ns s =
     ((0 \<le> sfTop s \<and>
         (\<not> valid_index (sf s) (sfTop s)
          \<or> list_ex (\<lambda>j. \<not> valid_index ns j \<or> ns ! nat j = None)
               (take (nat (sfTop s + 1)) (sf s))))
      \<or> (0 \<le> osTop s \<and> \<not> valid_index (os s) (osTop s)))"

section \<open>The dispatch of one node (engine.go)\<close>

text \<open>
  One pass through the \<^verbatim>\<open>switch\<close> of the loop, after \<open>curtIdx\<close> was popped and
  \<open>curt\<close> loaded: the branch produces \<open>res\<close> and falls through to the short-circuit
  test, or it ends with \<^verbatim>\<open>continue\<close>, or \<^verbatim>\<open>Eval\<close> ends there.
\<close>

datatype dispatched =
    Produced Value vm
  | Continued vm
  | Stopped outcome "event list"

text \<open>How an iteration of the loop ends: on to the next one, or with the end of \<^verbatim>\<open>Eval\<close>.\<close>

datatype flow =
    Next vm
  | Done outcome "event list"

text \<open>
  The indices \<^verbatim>\<open>childIdx + i\<close> for \<open>0 \<le> i < cnt\<close>, in child order: both branches
  of a \<^verbatim>\<open>fastOperator\<close> read these children, \<^verbatim>\<open>nodes[childIdx]\<close> and
  \<^verbatim>\<open>nodes[childIdx+1]\<close> when \<open>cnt = 2\<close>, the loop over \<open>i\<close> otherwise, where
  \<^verbatim>\<open>make([]Value, cnt)\<close> panics first on a negative count.
\<close>

definition children :: "node \<Rightarrow> int list" where
  "children n =
     (if childCnt n = 2 then [childIdx n, i16 (childIdx n + 1)]
      else map (\<lambda>i. i16 (childIdx n + int i)) [0..<nat (childCnt n)])"

definition dispatch_fastOperator :: "Expr \<Rightarrow> Ctx \<Rightarrow> int \<Rightarrow> node \<Rightarrow> vm \<Rightarrow> dispatched" where
  "dispatch_fastOperator e ctx curtIdx curt s =
     (case (if childCnt curt < 0 then (Inl Panic, trace s)
            else getNodeValues e ctx (children curt) (trace s)) of
           (Inl out, tr) \<Rightarrow> Stopped out tr
         | (Inr param, tr) \<Rightarrow>
             (case call_operator ctx curtIdx curt param tr of
                (Inl out, tr') \<Rightarrow> Stopped out tr'
              | (Inr res, tr') \<Rightarrow> Produced res (s\<lparr>trace := tr'\<rparr>)))"

definition dispatch_operator :: "Ctx \<Rightarrow> int \<Rightarrow> node \<Rightarrow> vm \<Rightarrow> dispatched" where
  "dispatch_operator ctx curtIdx curt s =
     (let cnt = childCnt curt; cidx = childIdx curt
      in if maxIdx s < curtIdx then
           (case push_sf i16 curtIdx
                   (s\<lparr>maxIdx := curtIdx, trace := trace s @ [Entered curtIdx]\<rparr>) of
              None \<Rightarrow> Stopped Panic (trace s)
            | Some s1 \<Rightarrow>
                if cnt = 2 then
                  (case Option.bind (push_sf i16 (i16 (cidx + 1)) s1) (push_sf i16 cidx) of
                     None \<Rightarrow> Stopped Panic (trace s)
                   | Some s2 \<Rightarrow> Continued s2)
                else
                  (case store_children i16 (sf s1) (i16 (sfTop s1 + cnt)) cidx
                          (map int [0..<nat cnt]) of
                     None \<Rightarrow> Stopped Panic (trace s)
                   | Some fr \<Rightarrow> Continued (s1\<lparr>sf := fr, sfTop := i16 (sfTop s1 + cnt)\<rparr>)))
         else
           (case take_params i16 cnt (s\<lparr>maxIdx := curtIdx\<rparr>) of
              None \<Rightarrow> Stopped Panic (trace s)
            | Some (param, s1) \<Rightarrow>
                (case call_operator ctx curtIdx curt param (trace s1) of
                   (Inl out, tr') \<Rightarrow> Stopped out tr'
                 | (Inr res, tr') \<Rightarrow> Produced res (s1\<lparr>trace := tr'\<rparr>))))"

definition dispatch_cond :: "int \<Rightarrow> node \<Rightarrow> vm \<Rightarrow> dispatched" where
  "dispatch_cond curtIdx curt s =
     (let cidx = childIdx curt
      in if maxIdx s < curtIdx then
           (let cnt = childCnt curt
            in case Option.bind
                    (Option.bind
                       (push_sf i16 (i16 (cidx + cnt - 1))
                          (s\<lparr>maxIdx := curtIdx, trace := trace s @ [Entered curtIdx]\<rparr>))
                       (push_sf i16 curtIdx))
                    (push_sf i16 cidx) of
                 None \<Rightarrow> Stopped Panic (trace s)
               | Some s1 \<Rightarrow> Continued s1)
         else
           (case pop_os i16 s of
              None \<Rightarrow> Stopped Panic (trace s)
            | Some (res, s1) \<Rightarrow>
                (case res of
                   VBool condRes \<Rightarrow>
                     (case push_sf i16 (if condRes then i16 (cidx + 1) else i16 (cidx + 2)) s1 of
                        None \<Rightarrow> Stopped Panic (trace s)
                      | Some s2 \<Rightarrow> Continued s2)
                 | _ \<Rightarrow> Stopped (Fail (CondResultType res)) (trace s))))"

definition dispatch_end :: "Expr \<Rightarrow> int \<Rightarrow> vm \<Rightarrow> dispatched" where
  "dispatch_end e curtIdx s =
     (if valid_index (parentIdx e) curtIdx then
        (case pop_os i16 (s\<lparr>maxIdx := parentIdx e ! nat curtIdx\<rparr>) of
           None \<Rightarrow> Stopped Panic (trace s)
         | Some (res, s1) \<Rightarrow> Produced res s1)
      else Stopped Panic (trace s))"

text \<open>
  The \<^verbatim>\<open>default\<close> branch. \<^verbatim>\<open>int16(len(nodes)) / 2\<close> truncates the length to
  \<^verbatim>\<open>int16\<close> and divides towards zero.
\<close>

definition dispatch_debug :: "Expr \<Rightarrow> int \<Rightarrow> vm \<Rightarrow> dispatched" where
  "dispatch_debug e curtIdx s =
     (let offset = i16 (int (length (nodes e))) sdiv 2
      in case debugStackFrame i16 (sf s) (sfTop s) offset of
           None \<Rightarrow> Stopped Panic (trace s)
         | Some fr \<Rightarrow>
             (case push_sf i16 (i16 (curtIdx + offset)) (s\<lparr>sf := fr\<rparr>) of
                None \<Rightarrow> Stopped Panic (trace s)
              | Some s1 \<Rightarrow>
                  if printStacks_panics (nodes e) s1 then Stopped Panic (trace s)
                  else Continued (s1\<lparr>scTriggered := False\<rparr>)))"

definition dispatch :: "Expr \<Rightarrow> Ctx \<Rightarrow> int \<Rightarrow> node \<Rightarrow> vm \<Rightarrow> dispatched" where
  "dispatch e ctx curtIdx curt s =
     (let t = flag curt AND nodeTypeMask
      in if t = fastOperator_type then dispatch_fastOperator e ctx curtIdx curt s
         else if t = operator_type then dispatch_operator ctx curtIdx curt s
         else if t = selector_type then
           (case getSelectorValue ctx curtIdx curt (trace s) of
              (Inl out, tr) \<Rightarrow> Stopped out tr
            | (Inr res, tr) \<Rightarrow> Produced res (s\<lparr>trace := tr\<rparr>))
         else if t = constant_type then Produced (value curt) s
         else if t = cond_type then dispatch_cond curtIdx curt s
         else if t = end_type then dispatch_end e curtIdx s
         else dispatch_debug e curtIdx s)"

section \<open>The short-circuit loop and the evaluation loop (engine.go)\<close>

text \<open>The condition of the inner \<^verbatim>\<open>for\<close>: the flags of \<open>curt\<close> fire on \<open>b\<close>.\<close>

definition fires :: "bool \<Rightarrow> node \<Rightarrow> bool" where
  "fires b curt =
     ((\<not> b \<and> flag curt AND scIfFalse = scIfFalse) \<or> (b \<and> flag curt AND scIfTrue = scIfTrue))"

text \<open>
  The inner \<^verbatim>\<open>for\<close> may run forever (a node can name itself as its target), so it
  takes fuel: \<open>None\<close> is "not finished within the fuel". It ends \<^verbatim>\<open>Eval\<close>
  (\<^verbatim>\<open>return res, nil\<close>, or a panic), or it is left with the stacks as the last rewind
  set them, on to the push of \<open>res\<close>.
\<close>

fun short_circuit :: "nat \<Rightarrow> Expr \<Rightarrow> Value \<Rightarrow> bool \<Rightarrow> node \<Rightarrow> vm \<Rightarrow> flow option" where
  "short_circuit 0 e res b curt s = None"
| "short_circuit (Suc k) e res b curt s =
     (if fires b curt then
        (let curtIdx = scIdx curt
         in if curtIdx = 0 then Some (Done (Return res) (trace s))
            else if \<not> valid_index (sfSize e) curtIdx then Some (Done Panic (trace s))
            else if \<not> valid_index (osSize e) curtIdx then Some (Done Panic (trace s))
            else
              (case node_at e curtIdx of
                 None \<Rightarrow> Some (Done Panic (trace s))
               | Some t \<Rightarrow>
                   short_circuit k e res b t
                     (s\<lparr>scTriggered := True, maxIdx := curtIdx,
                        sfTop := i16 (sfSize e ! nat curtIdx - 2),
                        osTop := i16 (osSize e ! nat curtIdx - 1),
                        trace := trace s
                          @ [Rewound curtIdx (sfTop s) (i16 (sfSize e ! nat curtIdx - 2))]\<rparr>)))
      else Some (Next s))"

text \<open>
  What follows the \<^verbatim>\<open>switch\<close> when a branch produced \<open>res\<close>: the short-circuit loop
  if \<open>res\<close> is a \<^verbatim>\<open>bool\<close>, then the push of \<open>res\<close> onto the operand stack.
\<close>

definition finish_node :: "nat \<Rightarrow> Expr \<Rightarrow> Value \<Rightarrow> node \<Rightarrow> vm \<Rightarrow> flow option" where
  "finish_node k e res curt s =
     (case (case res of VBool b \<Rightarrow> short_circuit k e res b curt s | _ \<Rightarrow> Some (Next s)) of
        None \<Rightarrow> None
      | Some (Done out tr) \<Rightarrow> Some (Done out tr)
      | Some (Next s1) \<Rightarrow>
          (case push_os i16 res s1 of
             None \<Rightarrow> Some (Done Panic (trace s1))
           | Some s2 \<Rightarrow> Some (Next s2)))"

text \<open>
  One iteration of \<^verbatim>\<open>for sfTop != -1\<close>: the pop of \<open>curtIdx\<close>, the load of \<open>curt\<close>,
  the \<^verbatim>\<open>switch\<close> and what follows it.
\<close>

definition step :: "nat \<Rightarrow> Expr \<Rightarrow> Ctx \<Rightarrow> vm \<Rightarrow> flow option" where
  "step k e ctx s =
     (if \<not> valid_index (sf s) (sfTop s) then Some (Done Panic (trace s))
      else
        (let curtIdx = sf s ! nat (sfTop s)
         in case node_at e curtIdx of
              None \<Rightarrow> Some (Done Panic (trace s))
            | Some curt \<Rightarrow>
                (case dispatch e ctx curtIdx curt (s\<lparr>sfTop := i16 (sfTop s - 1)\<rparr>) of
                   Produced res s1 \<Rightarrow> finish_node k e res curt s1
                 | Continued s1 \<Rightarrow> Some (Next s1)
                 | Stopped out tr \<Rightarrow> Some (Done out tr))))"

text \<open>
  The loop and the \<^verbatim>\<open>return os[0], nil\<close> after it, with fuel: one unit for each
  iteration, and what is left for the short-circuit loop inside it. The result is how
  \<^verbatim>\<open>Eval\<close> ends, together with the calls it made.
\<close>

fun eval_loop :: "nat \<Rightarrow> Expr \<Rightarrow> Ctx \<Rightarrow> vm \<Rightarrow> (outcome \<times> event list) option" where
  "eval_loop 0 e ctx s = None"
| "eval_loop (Suc k) e ctx s =
     (if sfTop s = - 1 then
        (if valid_index (os s) 0 then Some (Return (os s ! 0), trace s) else Some (Panic, trace s))
      else
        (case step k e ctx s of
           None \<Rightarrow> None
         | Some (Done out tr) \<Rightarrow> Some (out, tr)
         | Some (Next s1) \<Rightarrow> eval_loop k e ctx s1))"

text \<open>
  The stacks \<^verbatim>\<open>Eval\<close> allocates (\<^verbatim>\<open>make\<close> fills them with zero values) and its
  variables before the loop: the root is on the stack frame because \<open>sfTop = 0\<close> and
  \<open>sf[0]\<close> is 0.
\<close>

definition stack_len :: "int \<Rightarrow> nat" where
  "stack_len sz = (if sz \<le> 8 then 8 else if sz \<le> 16 then 16 else nat sz)"

definition init_vm :: "Expr \<Rightarrow> vm" where
  "init_vm e =
     \<lparr>sf = replicate (stack_len (maxStackSize e)) 0, sfTop = 0,
      os = replicate (stack_len (maxStackSize e)) VNil, osTop = - 1,
      maxIdx = - 1, scTriggered = False, trace = []\<rparr>"

definition Eval :: "nat \<Rightarrow> Expr \<Rightarrow> Ctx \<Rightarrow> (outcome \<times> event list) option" where
  "Eval fuel e ctx = eval_loop fuel e ctx (init_vm e)"

text \<open>\<^verbatim>\<open>EvalBool\<close>: the \<^verbatim>\<open>fmt.Errorf("invalid result type: %v", res)\<close> is \<open>InvalidResultType\<close>.\<close>

datatype bool_outcome = ReturnBool bool | FailBool error | InvalidResultType Value | PanicBool

definition EvalBool :: "nat \<Rightarrow> Expr \<Rightarrow> Ctx \<Rightarrow> (bool_outcome \<times> event list) option" where
  "EvalBool fuel e ctx =
     (case Eval fuel e ctx of
        None \<Rightarrow> None
      | Some (Fail err, tr) \<Rightarrow> Some (FailBool err, tr)
      | Some (Panic, tr) \<Rightarrow> Some (PanicBool, tr)
      | Some (Return (VBool v), tr) \<Rightarrow> Some (ReturnBool v, tr)
      | Some (Return res, tr) \<Rightarrow> Some (InvalidResultType res, tr))"

section \<open>Well-typed tables\<close>

text \<open>
  The ranges of the Go types, for the places where a theorem needs them. The entries of
  \<^verbatim>\<open>sfSize\<close> and \<^verbatim>\<open>osSize\<close> are \<^verbatim>\<open>int16\<close> values from which the rewind subtracts 2
  and 1: \<open>depth_tables\<close> says that no entry is so low that the subtraction wraps around
  (depths are not negative).
\<close>

definition fits_int16 :: "int \<Rightarrow> bool" where
  "fits_int16 x = (- 32768 \<le> x \<and> x \<le> 32767)"


section \<open>The bytecode variant (the second source file)\<close>

text \<open>
  Four \<^verbatim>\<open>int16\<close> words for each node: the flag word (node type in bits 0 to 2, the
  short-circuit flags in bits 3 and 4, the child count from bit 8 up), the index of the
  first child, the index of the constant or of the operator, and the selector key.
  Indices are \<^verbatim>\<open>int\<close>, 64 bits wide: \<open>i64\<close> is their wrap-around.
\<close>

definition i64 :: "int \<Rightarrow> int" where
  "i64 x = (x + 9223372036854775808) mod 18446744073709551616 - 9223372036854775808"

definition scMask :: int where "scMask = 24"

text \<open>
  The field \<^verbatim>\<open>nodes\<close> of this variant is read by \<^verbatim>\<open>printStacks\<close> and for its length
  only; the fields the two source files share carry the suffix \<open>_bc\<close> here.
\<close>

record Expr_bc =
  maxStackSize_bc :: int
  bytecode :: "int list"
  constants :: "Value list"
  operators :: "Operator option list"
  scIdx_bc :: "int list"
  sfSize_bc :: "int list"
  osSize_bc :: "int list"
  parentIdx_bc :: "int list"
  nodes_bc :: "node option list"

text \<open>\<^verbatim>\<open>bytecode[i]\<close>; \<open>None\<close> is the panic of the index expression.\<close>

definition code_at :: "Expr_bc \<Rightarrow> int \<Rightarrow> int option" where
  "code_at e i = (if valid_index (bytecode e) i then Some (bytecode e ! nat i) else None)"

text \<open>
  The method \<^verbatim>\<open>e.getNodeValue\<close>: a constant is read from \<^verbatim>\<open>e.constants\<close>, anything
  else is asked of the context with the key of the node and the empty name; what the
  context returns is handed on as it is.
\<close>

definition getNodeValue_bc ::
  "Expr_bc \<Rightarrow> Ctx \<Rightarrow> int \<Rightarrow> event list \<Rightarrow> (outcome + Value) \<times> event list" where
  "getNodeValue_bc e ctx i tr =
     (let j = i64 (i * 4)
      in case code_at e j of
           None \<Rightarrow> (Inl Panic, tr)
         | Some f \<Rightarrow>
             if f AND nodeTypeMask = constant_type then
               (case code_at e (i64 (j + 2)) of
                  None \<Rightarrow> (Inl Panic, tr)
                | Some c \<Rightarrow>
                    if valid_index (constants e) c then (Inr (constants e ! nat c), tr)
                    else (Inl Panic, tr))
             else
               (case code_at e (i64 (j + 3)) of
                  None \<Rightarrow> (Inl Panic, tr)
                | Some key \<Rightarrow>
                    (case Get ctx key '''' of
                       Inl err \<Rightarrow> (Inl (Fail (External err)), tr @ [GetCalled i key ''''])
                     | Inr res \<Rightarrow> (Inr res, tr @ [GetCalled i key '''']))))"

fun getNodeValues_bc ::
  "Expr_bc \<Rightarrow> Ctx \<Rightarrow> int list \<Rightarrow> event list \<Rightarrow> (outcome + Value list) \<times> event list" where
  "getNodeValues_bc e ctx [] tr = (Inr [], tr)"
| "getNodeValues_bc e ctx (i # js) tr =
     (case getNodeValue_bc e ctx i tr of
        (Inl out, tr') \<Rightarrow> (Inl out, tr')
      | (Inr v, tr') \<Rightarrow>
          (case getNodeValues_bc e ctx js tr' of
             (Inl out, tr'') \<Rightarrow> (Inl out, tr'')
           | (Inr vs, tr'') \<Rightarrow> (Inr (v # vs), tr'')))"

text \<open>
  \<^verbatim>\<open>res, err = operators[int(bytecode[curtIdx+2])](ctx, param)\<close> and the error return
  after it, which prints the node index \<open>curt\<close> (an \<^verbatim>\<open>int\<close>) where engine.go prints
  the value stored in the node.
\<close>

definition call_operator_bc ::
  "Expr_bc \<Rightarrow> Ctx \<Rightarrow> int \<Rightarrow> Value list \<Rightarrow> event list \<Rightarrow> (outcome + Value) \<times> event list" where
  "call_operator_bc e ctx curt param tr =
     (case code_at e (i64 (i64 (curt * 4) + 2)) of
        None \<Rightarrow> (Inl Panic, tr)
      | Some oi \<Rightarrow>
          if \<not> valid_index (operators e) oi then (Inl Panic, tr)
          else
            (case operators e ! nat oi of
               None \<Rightarrow> (Inl Panic, tr)
             | Some f \<Rightarrow>
                 (case f ctx param of
                    Inl err \<Rightarrow>
                      (Inl (Fail (OperatorExecution (VInt (word_of_int curt)) err)),
                       tr @ [OpCalled curt param])
                  | Inr res \<Rightarrow> (Inr res, tr @ [OpCalled curt param]))))"

text \<open>The branches of the \<^verbatim>\<open>switch\<close>; \<open>f\<close> is the flag word \<^verbatim>\<open>bytecode[curtIdx]\<close>.\<close>

definition dispatch_fastOperator_bc :: "Expr_bc \<Rightarrow> Ctx \<Rightarrow> int \<Rightarrow> int \<Rightarrow> vm \<Rightarrow> dispatched" where
  "dispatch_fastOperator_bc e ctx curt f s =
     (let cnt = drop_bit 8 f
      in case code_at e (i64 (i64 (curt * 4) + 1)) of
           None \<Rightarrow> Stopped Panic (trace s)
         | Some cidx \<Rightarrow>
             (case (if cnt = 2 then getNodeValues_bc e ctx [cidx, i64 (cidx + 1)] (trace s)
                    else if cnt < 0 then (Inl Panic, trace s)
                    else getNodeValues_bc e ctx (map (\<lambda>i. i64 (cidx + int i)) [0..<nat cnt])
                           (trace s)) of
                (Inl out, tr) \<Rightarrow> Stopped out tr
              | (Inr param, tr) \<Rightarrow>
                  (case call_operator_bc e ctx curt param tr of
                     (Inl out, tr') \<Rightarrow> Stopped out tr'
                   | (Inr res, tr') \<Rightarrow> Produced res (s\<lparr>trace := tr'\<rparr>))))"

definition dispatch_operator_bc :: "Expr_bc \<Rightarrow> Ctx \<Rightarrow> int \<Rightarrow> int \<Rightarrow> vm \<Rightarrow> dispatched" where
  "dispatch_operator_bc e ctx curt f s =
     (let cnt = drop_bit 8 f
      in if maxIdx s < curt then
           (case push_sf i64 curt (s\<lparr>maxIdx := curt, trace := trace s @ [Entered curt]\<rparr>) of
              None \<Rightarrow> Stopped Panic (trace s)
            | Some s1 \<Rightarrow>
                (case code_at e (i64 (i64 (curt * 4) + 1)) of
                   None \<Rightarrow> Stopped Panic (trace s)
                 | Some cidx \<Rightarrow>
                     if cnt = 2 then
                       (case Option.bind (push_sf i64 (i64 (cidx + 1)) s1) (push_sf i64 cidx) of
                          None \<Rightarrow> Stopped Panic (trace s)
                        | Some s2 \<Rightarrow> Continued s2)
                     else
                       (case store_children i64 (sf s1) (i64 (sfTop s1 + cnt)) cidx
                               (map int [0..<nat cnt]) of
                          None \<Rightarrow> Stopped Panic (trace s)
                        | Some fr \<Rightarrow> Continued (s1\<lparr>sf := fr, sfTop := i64 (sfTop s1 + cnt)\<rparr>))))
         else
           (case take_params i64 cnt (s\<lparr>maxIdx := curt\<rparr>) of
              None \<Rightarrow> Stopped Panic (trace s)
            | Some (param, s1) \<Rightarrow>
                (case call_operator_bc e ctx curt param (trace s1) of
                   (Inl out, tr') \<Rightarrow> Stopped out tr'
                 | (Inr res, tr') \<Rightarrow> Produced res (s1\<lparr>trace := tr'\<rparr>))))"

definition dispatch_selector_bc :: "Expr_bc \<Rightarrow> Ctx \<Rightarrow> int \<Rightarrow> vm \<Rightarrow> dispatched" where
  "dispatch_selector_bc e ctx curt s =
     (case code_at e (i64 (i64 (curt * 4) + 3)) of
        None \<Rightarrow> Stopped Panic (trace s)
      | Some key \<Rightarrow>
          (case Get ctx key '''' of
             Inl err \<Rightarrow> Stopped (Fail (External err)) (trace s @ [GetCalled curt key ''''])
           | Inr res \<Rightarrow> Produced res (s\<lparr>trace := trace s @ [GetCalled curt key '''']\<rparr>)))"

definition dispatch_constant_bc :: "Expr_bc \<Rightarrow> int \<Rightarrow> vm \<Rightarrow> dispatched" where
  "dispatch_constant_bc e curt s =
     (case code_at e (i64 (i64 (curt * 4) + 2)) of
        None \<Rightarrow> Stopped Panic (trace s)
      | Some c \<Rightarrow>
          if valid_index (constants e) c then Produced (constants e ! nat c) s
          else Stopped Panic (trace s))"

definition dispatch_cond_bc :: "Expr_bc \<Rightarrow> int \<Rightarrow> int \<Rightarrow> vm \<Rightarrow> dispatched" where
  "dispatch_cond_bc e curt f s =
     (case code_at e (i64 (i64 (curt * 4) + 1)) of
        None \<Rightarrow> Stopped Panic (trace s)
      | Some cidx \<Rightarrow>
          if maxIdx s < curt then
            (let cnt = drop_bit 8 f
             in case Option.bind
                     (Option.bind
                        (push_sf i64 (i64 (cidx + cnt - 1))
                           (s\<lparr>maxIdx := curt, trace := trace s @ [Entered curt]\<rparr>))
                        (push_sf i64 curt))
                     (push_sf i64 cidx) of
                  None \<Rightarrow> Stopped Panic (trace s)
                | Some s1 \<Rightarrow> Continued s1)
          else
            (case pop_os i64 s of
               None \<Rightarrow> Stopped Panic (trace s)
             | Some (res, s1) \<Rightarrow>
                 (case res of
                    VBool condRes \<Rightarrow>
                      (case push_sf i64 (if condRes then i64 (cidx + 1) else i64 (cidx + 2)) s1 of
                         None \<Rightarrow> Stopped Panic (trace s)
                       | Some s2 \<Rightarrow> Continued s2)
                  | _ \<Rightarrow> Stopped (Fail (CondResultType res)) (trace s))))"

definition dispatch_end_bc :: "Expr_bc \<Rightarrow> int \<Rightarrow> vm \<Rightarrow> dispatched" where
  "dispatch_end_bc e curt s =
     (if valid_index (parentIdx_bc e) curt then
        (case pop_os i64 (s\<lparr>maxIdx := parentIdx_bc e ! nat curt\<rparr>) of
           None \<Rightarrow> Stopped Panic (trace s)
         | Some (res, s1) \<Rightarrow> Produced res s1)
      else Stopped Panic (trace s))"

text \<open>\<^verbatim>\<open>len(e.nodes) / 2\<close> is a division of a length, which is not negative.\<close>

definition dispatch_debug_bc :: "Expr_bc \<Rightarrow> int \<Rightarrow> vm \<Rightarrow> dispatched" where
  "dispatch_debug_bc e curt s =
     (let offset = int (length (nodes_bc e)) sdiv 2
      in case debugStackFrame i64 (sf s) (sfTop s) offset of
           None \<Rightarrow> Stopped Panic (trace s)
         | Some fr \<Rightarrow>
             (case push_sf i64 (i64 (curt + offset)) (s\<lparr>sf := fr\<rparr>) of
                None \<Rightarrow> Stopped Panic (trace s)
              | Some s1 \<Rightarrow>
                  if printStacks_panics (nodes_bc e) s1 then Stopped Panic (trace s)
                  else Continued (s1\<lparr>scTriggered := False\<rparr>)))"

definition dispatch_bc :: "Expr_bc \<Rightarrow> Ctx \<Rightarrow> int \<Rightarrow> int \<Rightarrow> vm \<Rightarrow> dispatched" where
  "dispatch_bc e ctx curt f s =
     (let t = f AND nodeTypeMask
      in if t = fastOperator_type then dispatch_fastOperator_bc e ctx curt f s
         else if t = operator_type then dispatch_operator_bc e ctx curt f s
         else if t = selector_type then dispatch_selector_bc e ctx curt s
         else if t = constant_type then dispatch_constant_bc e curt s
         else if t = cond_type then dispatch_cond_bc e curt f s
         else if t = end_type then dispatch_end_bc e curt s
         else dispatch_debug_bc e curt s)"

text \<open>
  The short-circuit loop of the bytecode variant; \<open>fl\<close> is the local \<^verbatim>\<open>flag\<close>, the
  flag word masked with \<^verbatim>\<open>scMask\<close>, and the target is read from \<^verbatim>\<open>e.scIdx\<close>.
\<close>

definition fires_bc :: "bool \<Rightarrow> int \<Rightarrow> bool" where
  "fires_bc b fl = ((\<not> b \<and> fl AND scIfFalse = scIfFalse) \<or> (b \<and> fl AND scIfTrue = scIfTrue))"

fun short_circuit_bc :: "nat \<Rightarrow> Expr_bc \<Rightarrow> Value \<Rightarrow> bool \<Rightarrow> int \<Rightarrow> int \<Rightarrow> vm \<Rightarrow> flow option" where
  "short_circuit_bc 0 e res b curt fl s = None"
| "short_circuit_bc (Suc k) e res b curt fl s =
     (if fires_bc b fl then
        (if \<not> valid_index (scIdx_bc e) curt then Some (Done Panic (trace s))
         else
           (let t = scIdx_bc e ! nat curt
            in if t = 0 then Some (Done (Return res) (trace s))
               else if \<not> valid_index (sfSize_bc e) t then Some (Done Panic (trace s))
               else if \<not> valid_index (osSize_bc e) t then Some (Done Panic (trace s))
               else
                 (case code_at e (i64 (push_bit 2 t)) of
                    None \<Rightarrow> Some (Done Panic (trace s))
                  | Some f \<Rightarrow>
                      short_circuit_bc k e res b t (f AND scMask)
                        (s\<lparr>scTriggered := True, maxIdx := t,
                           sfTop := i64 (sfSize_bc e ! nat t - 2),
                           osTop := i64 (osSize_bc e ! nat t - 1),
                           trace := trace s
                             @ [Rewound t (sfTop s) (i64 (sfSize_bc e ! nat t - 2))]\<rparr>))))
      else Some (Next s))"

definition finish_node_bc :: "nat \<Rightarrow> Expr_bc \<Rightarrow> Value \<Rightarrow> int \<Rightarrow> int \<Rightarrow> vm \<Rightarrow> flow option" where
  "finish_node_bc k e res curt f s =
     (case (case res of
              VBool b \<Rightarrow> short_circuit_bc k e res b curt (f AND scMask) s
            | _ \<Rightarrow> Some (Next s)) of
        None \<Rightarrow> None
      | Some (Done out tr) \<Rightarrow> Some (Done out tr)
      | Some (Next s1) \<Rightarrow>
          (case push_os i64 res s1 of
             None \<Rightarrow> Some (Done Panic (trace s1))
           | Some s2 \<Rightarrow> Some (Next s2)))"

definition step_bc :: "nat \<Rightarrow> Expr_bc \<Rightarrow> Ctx \<Rightarrow> vm \<Rightarrow> flow option" where
  "step_bc k e ctx s =
     (if \<not> valid_index (sf s) (sfTop s) then Some (Done Panic (trace s))
      else
        (let curt = sf s ! nat (sfTop s)
         in case code_at e (i64 (curt * 4)) of
              None \<Rightarrow> Some (Done Panic (trace s))
            | Some f \<Rightarrow>
                (case dispatch_bc e ctx curt f (s\<lparr>sfTop := i64 (sfTop s - 1)\<rparr>) of
                   Produced res s1 \<Rightarrow> finish_node_bc k e res curt f s1
                 | Continued s1 \<Rightarrow> Some (Next s1)
                 | Stopped out tr \<Rightarrow> Some (Done out tr))))"

fun eval_loop_bc :: "nat \<Rightarrow> Expr_bc \<Rightarrow> Ctx \<Rightarrow> vm \<Rightarrow> (outcome \<times> event list) option" where
  "eval_loop_bc 0 e ctx s = None"
| "eval_loop_bc (Suc k) e ctx s =
     (if sfTop s = - 1 then
        (if valid_index (os s) 0 then Some (Return (os s ! 0), trace s) else Some (Panic, trace s))
      else
        (case step_bc k e ctx s of
           None \<Rightarrow> None
         | Some (Done out tr) \<Rightarrow> Some (out, tr)
         | Some (Next s1) \<Rightarrow> eval_loop_bc k e ctx s1))"

text \<open>
  This variant has a fourth stack size, and it pushes the root with an assignment
  (\<^verbatim>\<open>sf[sfTop+1], sfTop = 0, sfTop+1\<close>), which cannot panic on a stack of four or more.
\<close>

definition stack_len_bc :: "int \<Rightarrow> nat" where
  "stack_len_bc sz =
     (if sz \<le> 4 then 4 else if sz \<le> 8 then 8 else if sz \<le> 16 then 16 else nat sz)"

definition init_vm_bc :: "Expr_bc \<Rightarrow> vm" where
  "init_vm_bc e =
     \<lparr>sf = replicate (stack_len_bc (maxStackSize_bc e)) 0, sfTop = 0,
      os = replicate (stack_len_bc (maxStackSize_bc e)) VNil, osTop = - 1,
      maxIdx = - 1, scTriggered = False, trace = []\<rparr>"

definition Eval_bc :: "nat \<Rightarrow> Expr_bc \<Rightarrow> Ctx \<Rightarrow> (outcome \<times> event list) option" where
  "Eval_bc fuel e ctx = eval_loop_bc fuel e ctx (init_vm_bc e)"

section \<open>Compiled expressions used as examples\<close>

text \<open>
  The compiler is not part of the source at hand, so the examples are node tables written
  by hand, in the layout \<^verbatim>\<open>Eval\<close> reads: the children of a node are contiguous and
  follow it, the first child of node \<open>i\<close> is \<^verbatim>\<open>childIdx\<close>.
\<close>

definition mk_node :: "int \<Rightarrow> int \<Rightarrow> int \<Rightarrow> int \<Rightarrow> SelectorKey \<Rightarrow> Value \<Rightarrow> Operator option \<Rightarrow> node" where
  "mk_node f cnt cidx sc key v opr =
     \<lparr>flag = f, childCnt = cnt, scIdx = sc, childIdx = cidx, selKey = key, value = v,
      operator = opr\<rparr>"

text \<open>Operators: conjunction, disjunction and addition; each ignores the context.\<close>

definition and_op :: Operator where
  "and_op ctx param =
     (case param of [VBool a, VBool b] \<Rightarrow> Inr (VBool (a \<and> b)) | _ \<Rightarrow> Inl ''and: bad operands'')"


definition add_op :: Operator where
  "add_op ctx param =
     (case param of [VInt64 a, VInt64 b] \<Rightarrow> Inr (VInt64 (a + b)) | _ \<Rightarrow> Inl ''add: bad operands'')"

text \<open>An operator without parameters, and one that always fails.\<close>

definition expensive :: Operator where
  "expensive ctx param = Inr (VBool True)"

definition failing_op :: Operator where
  "failing_op ctx param = Inl ''db down''"

text \<open>The variable \<open>x\<close> alone: one \<^verbatim>\<open>selector\<close> node with key 7, in both encodings.\<close>

definition var_x :: Expr where
  "var_x =
     \<lparr>maxStackSize = 1,
      nodes = [Some (mk_node 2 0 0 0 7 (VString ''x'') None)],
      parentIdx = [- 1], scIdxs = [0], sfSize = [1], osSize = [0]\<rparr>"

definition var_x_bc :: Expr_bc where
  "var_x_bc =
     \<lparr>maxStackSize_bc = 1,
      bytecode = [2, 0, 0, 7], constants = [], operators = [],
      scIdx_bc = [0], sfSize_bc = [1], osSize_bc = [0], parentIdx_bc = [- 1],
      nodes_bc = [Some (mk_node 2 0 0 0 7 (VString ''x'') None)]\<rparr>"

text \<open>A \<^verbatim>\<open>selector\<close> node whose \<^verbatim>\<open>value\<close> is \<^verbatim>\<open>nil\<close>.\<close>

definition var_unnamed :: Expr where
  "var_unnamed =
     \<lparr>maxStackSize = 1,
      nodes = [Some (mk_node 2 0 0 0 7 VNil None)],
      parentIdx = [- 1], scIdxs = [0], sfSize = [1], osSize = [0]\<rparr>"

text \<open>
  \<open>x + 2\<close> as a \<^verbatim>\<open>fastOperator\<close> over the leaves \<open>x\<close> and \<open>2\<close>, and the same with
  a first leaf whose \<^verbatim>\<open>value\<close> is \<^verbatim>\<open>nil\<close>.
\<close>

definition x_plus_2 :: Expr where
  "x_plus_2 =
     \<lparr>maxStackSize = 1,
      nodes = [Some (mk_node 4 2 1 0 0 (VString ''+'') (Some add_op)),
               Some (mk_node 2 0 0 0 7 (VString ''x'') None),
               Some (mk_node 1 0 0 0 0 (VInt64 2) None)],
      parentIdx = [- 1, 0, 0], scIdxs = [0, 0, 0], sfSize = [1, 2, 2], osSize = [0, 0, 1]\<rparr>"

definition unnamed_plus_2 :: Expr where
  "unnamed_plus_2 =
     \<lparr>maxStackSize = 1,
      nodes = [Some (mk_node 4 2 1 0 0 (VString ''+'') (Some add_op)),
               Some (mk_node 2 0 0 0 7 VNil None),
               Some (mk_node 1 0 0 0 0 (VInt64 2) None)],
      parentIdx = [- 1, 0, 0], scIdxs = [0, 0, 0], sfSize = [1, 2, 2], osSize = [0, 0, 1]\<rparr>"

text \<open>
  \<open>false and expensive()\<close>: the constant carries \<^verbatim>\<open>scIfFalse\<close> with target 0, and
  \<open>false and x\<close> with an \<open>x\<close> whose \<^verbatim>\<open>value\<close> is \<^verbatim>\<open>nil\<close>.
\<close>

definition false_and_expensive :: Expr where
  "false_and_expensive =
     \<lparr>maxStackSize = 3,
      nodes = [Some (mk_node 3 2 1 0 0 (VString ''and'') (Some and_op)),
               Some (mk_node 9 0 0 0 0 (VBool False) None),
               Some (mk_node 4 0 0 0 0 (VString ''expensive'') (Some expensive))],
      parentIdx = [- 1, 0, 0], scIdxs = [0, 0, 0], sfSize = [1, 3, 2], osSize = [0, 0, 1]\<rparr>"

definition false_and_unnamed :: Expr where
  "false_and_unnamed =
     \<lparr>maxStackSize = 3,
      nodes = [Some (mk_node 3 2 1 0 0 (VString ''and'') (Some and_op)),
               Some (mk_node 9 0 0 0 0 (VBool False) None),
               Some (mk_node 2 0 0 0 7 VNil None)],
      parentIdx = [- 1, 0, 0], scIdxs = [0, 0, 0], sfSize = [1, 3, 2], osSize = [0, 0, 1]\<rparr>"

text \<open>A call of the failing operator, as a \<^verbatim>\<open>fastOperator\<close> without children, in both encodings.\<close>

definition call_failing :: Expr where
  "call_failing =
     \<lparr>maxStackSize = 1,
      nodes = [Some (mk_node 4 0 0 0 0 (VString ''lookup'') (Some failing_op))],
      parentIdx = [- 1], scIdxs = [0], sfSize = [1], osSize = [0]\<rparr>"


text \<open>The constant \<open>true\<close> alone.\<close>

definition const_true :: Expr where
  "const_true =
     \<lparr>maxStackSize = 1,
      nodes = [Some (mk_node 1 0 0 0 0 (VBool True) None)],
      parentIdx = [- 1], scIdxs = [0], sfSize = [1], osSize = [0]\<rparr>"

text \<open>
  Contexts: \<open>x\<close> (key 7) is an \<^verbatim>\<open>int32\<close> 3; the lookup fails; the token is cancelled.
\<close>

definition ctx_x_int32 :: Ctx where
  "ctx_x_int32 =
     \<lparr>Get = (\<lambda>key name. if key = 7 then Inr (VInt32 3) else Inl ''no such variable''),
      Ctx = Live\<rparr>"

definition ctx_db_down :: Ctx where
  "ctx_db_down = \<lparr>Get = (\<lambda>key name. Inl ''db down''), Ctx = Live\<rparr>"

definition ctx_cancelled :: Ctx where
  "ctx_cancelled = \<lparr>Get = (\<lambda>key name. Inl ''no such variable''), Ctx = Cancelled\<rparr>"

section \<open>Operators that do not read the cancellation token\<close>

definition ignores_token :: "Operator \<Rightarrow> bool" where
  "ignores_token f = (\<forall>ctx c param. f (ctx\<lparr>Ctx := c\<rparr>) param = f ctx param)"

definition token_blind :: "Expr \<Rightarrow> bool" where
  "token_blind e =
     list_all (\<lambda>n. case n of None \<Rightarrow> True
                  | Some n \<Rightarrow> (case operator n of None \<Rightarrow> True | Some f \<Rightarrow> ignores_token f))
       (nodes e)"
















section \<open>Which nodes the frames on the stack can lead to (engine.go)\<close>

text \<open>The frames that are on the stack frame: \<^verbatim>\<open>sf[0..sfTop]\<close>.\<close>

definition live :: "vm \<Rightarrow> int list" where
  "live s = take (nat (sfTop s + 1)) (sf s)"







text \<open>Every call among these events is made for a node in \<open>A\<close>.\<close>

definition calls_within :: "int set \<Rightarrow> event list \<Rightarrow> bool" where
  "calls_within A evs = (\<forall>ev \<in> set evs. \<forall>j. call_node ev = Some j \<longrightarrow> j \<in> A)"

text \<open>
  What one pass through the \<^verbatim>\<open>switch\<close> may do, from the state \<open>s0\<close> left by the pop:
  its calls are made for nodes in \<open>A\<close>; a branch that produces a result leaves the
  stack frame alone; a branch that continues leaves frames in \<open>R\<close> only, provided that
  no node has had two first visits.
\<close>

definition dispatch_sound :: "int set \<Rightarrow> int set \<Rightarrow> vm \<Rightarrow> dispatched \<Rightarrow> bool" where
  "dispatch_sound A R s0 d =
     (case d of
        Produced res s1 \<Rightarrow>
          sf s1 = sf s0 \<and> sfTop s1 = sfTop s0
          \<and> (\<exists>new. trace s1 = trace s0 @ new \<and> calls_within A new)
      | Continued s1 \<Rightarrow>
          length (sf s1) = length (sf s0)
          \<and> (\<exists>new. trace s1 = trace s0 @ new \<and> calls_within A new
                \<and> (distinct (entered (trace s1)) \<longrightarrow> set (live s1) \<subseteq> R))
      | Stopped out tr \<Rightarrow> (\<exists>new. tr = trace s0 @ new \<and> calls_within A new))"


section \<open>One expression in both encodings\<close>







text \<open>
  What the two variants are compared on. The name passed to \<^verbatim>\<open>ctx.Get\<close> is left out of
  the calls, and the operand that the operator-execution error prints (the \<^verbatim>\<open>value\<close> of
  the node in engine.go, the index of the node in the bytecode variant) out of the error.
\<close>

fun forget_name :: "event \<Rightarrow> event" where
  "forget_name (GetCalled i key name) = GetCalled i key ''''"
| "forget_name ev = ev"

fun forget_operand :: "outcome \<Rightarrow> outcome" where
  "forget_operand (Fail (OperatorExecution v err)) = Fail (OperatorExecution VNil err)"
| "forget_operand out = out"


text \<open>
  The stacks are within the range of \<^verbatim>\<open>int16\<close> indices: their lengths, the two tops
  (a rewind may leave \<^verbatim>\<open>sfTop\<close> at \<open>-2\<close>) and every frame.
\<close>

definition in_range :: "vm \<Rightarrow> bool" where
  "in_range s =
     (length (sf s) \<le> 32767 \<and> length (os s) \<le> 32767
      \<and> - 2 \<le> sfTop s \<and> sfTop s \<le> 32766 \<and> - 1 \<le> osTop s \<and> osTop s \<le> 32766
      \<and> list_all fits_int16 (sf s))"

text \<open>Two states that differ in the names of their traces only.\<close>

definition sim :: "vm \<Rightarrow> vm \<Rightarrow> bool" where
  "sim s' s =
     (sf s' = sf s \<and> sfTop s' = sfTop s \<and> os s' = os s \<and> osTop s' = osTop s
      \<and> maxIdx s' = maxIdx s \<and> scTriggered s' = scTriggered s
      \<and> map forget_name (trace s') = map forget_name (trace s))"



text \<open>The same for what a helper returns: a value or the end of \<^verbatim>\<open>Eval\<close>, and the trace.\<close>

definition sim_read :: "(outcome + 'a) \<times> event list \<Rightarrow> (outcome + 'a) \<times> event list \<Rightarrow> bool" where
  "sim_read r' r =
     (map_sum forget_operand id (fst r') = map_sum forget_operand id (fst r)
      \<and> map forget_name (snd r') = map forget_name (snd r))"

text \<open>
  The same inside one iteration of the loop, after the pop of the current frame: there
  \<^verbatim>\<open>sfTop\<close> is at least \<open>-1\<close>.
\<close>

definition akin :: "vm \<Rightarrow> vm \<Rightarrow> bool" where
  "akin s' s = (sim s' s \<and> in_range s \<and> - 1 \<le> sfTop s)"

section \<open>Properties of the type unifier\<close>

lemma signed_take_bit_63_id:
  "- 9223372036854775808 \<le> k \<Longrightarrow> k < 9223372036854775808 \<Longrightarrow> signed_take_bit 63 (k::int) = k"
  by (rule signed_take_bit_int_eq_self) simp_all

lemma sint_ucast_narrow:
  fixes v :: "'a::len word"
  assumes "LENGTH('a) \<le> 32"
  shows "sint (ucast v :: 64 word) = uint v"
proof -
  have "uint v < 2 ^ LENGTH('a)" by (rule uint_lt2p)
  also have "(2::int) ^ LENGTH('a) \<le> 2 ^ 32"
    using assms by (intro power_increasing) simp_all
  finally have "uint v < 9223372036854775808" by simp
  moreover have "- 9223372036854775808 \<le> uint v"
    using uint_ge_0 [of v] by linarith
  ultimately have "signed_take_bit 63 (uint v) = uint v"
    by (simp add: signed_take_bit_63_id)
  moreover have "uint (ucast v :: 64 word) = uint v"
    using assms by (simp add: uint_up_ucast is_up)
  ultimately show ?thesis by (simp add: sint_uint)
qed

lemma sint_scast_narrow:
  fixes v :: "'a::len word"
  assumes "LENGTH('a) \<le> 64"
  shows "sint (scast v :: 64 word) = sint v"
  using assms by (simp add: sint_up_scast is_up)

lemma abs_sdiv_Second: "\<bar>(k::int) sdiv Second\<bar> = \<bar>k\<bar> div 1000000000"
  by (cases "k = 0") (simp_all add: signed_divide_int_def Second_def abs_mult abs_sgn_eq)

lemma sint_duration_seconds:
  "sint (word_of_int (sint (d :: 64 word) sdiv Second) :: 64 word) = sint d sdiv Second"
proof -
  have "- 9223372036854775808 \<le> sint d" "sint d < 9223372036854775808"
    using sint_ge [of d] sint_lt [of d] by simp_all
  then have "\<bar>sint d\<bar> \<le> 9223372036854775808" by linarith
  then have "\<bar>sint d\<bar> div 1000000000 \<le> 9223372036854775808 div 1000000000"
    by (rule zdiv_mono1) simp
  then have "\<bar>sint d sdiv Second\<bar> \<le> 9223372036" by (simp add: abs_sdiv_Second)
  then have "- 9223372036854775808 \<le> sint d sdiv Second"
    and "sint d sdiv Second < 9223372036854775808" by linarith+
  then show ?thesis
    by (simp add: sint_sbintrunc' signed_take_bit_63_id)
qed

lemma sint_of_high_uint:
  fixes v :: "64 word"
  assumes "9223372036854775808 \<le> uint v"
  shows "sint v = uint v - 18446744073709551616"
proof -
  have lt: "uint v < 18446744073709551616" using uint_lt2p [of v] by simp
  have "(uint v + 9223372036854775808) mod 18446744073709551616
      = ((uint v - 9223372036854775808) + 18446744073709551616) mod 18446744073709551616"
    by (simp add: add.commute)
  also have "\<dots> = (uint v - 9223372036854775808) mod 18446744073709551616"
    by (rule mod_add_self2)
  also have "\<dots> = uint v - 9223372036854775808"
    using assms lt by (intro mod_pos_pos_trivial) simp_all
  finally show ?thesis
    by (simp add: sint_uint signed_take_bit_eq_take_bit_shift take_bit_eq_mod)
qed

lemma sint_of_low_uint:
  fixes v :: "64 word"
  assumes "uint v < 9223372036854775808"
  shows "sint v = uint v"
proof -
  have "- 9223372036854775808 \<le> uint v" using uint_ge_0 [of v] by linarith
  with assms show ?thesis by (simp add: sint_uint signed_take_bit_63_id)
qed

text \<open>
  C8, as the specification states it, fails: \<^verbatim>\<open>int64(v)\<close> on a \<^verbatim>\<open>uint64\<close> keeps the
  64 bits, so the largest \<^verbatim>\<open>uint64\<close>, 18446744073709551615, becomes the \<^verbatim>\<open>int64\<close>
  \<open>-1\<close>: the conversion does not preserve the numeric value of every integer it
  converts.
\<close>

theorem C8_uint64_counterexample:
  "converted_int_kind (VUint64 (- 1))
   \<and> int_value (VUint64 (- 1)) = Some 18446744073709551615
   \<and> int_value (unifyType (VUint64 (- 1))) = Some (- 1)
   \<and> int_value (unifyType (VUint64 (- 1))) \<noteq> int_value (VUint64 (- 1))"
  by (simp add: uint_word_ariths)

text \<open>
  C8, amended: \<^verbatim>\<open>unifyType\<close> preserves the numeric value of every integer it converts
  to \<^verbatim>\<open>int64\<close> except a \<^verbatim>\<open>uint64\<close> of \<open>2^63\<close> or more, which is reinterpreted in
  two's complement (its value minus \<open>2^64\<close>); a \<^verbatim>\<open>[]int\<close> is converted element by
  element with every element's value preserved; a duration becomes its whole seconds,
  truncated towards zero; a time becomes its Unix second.
\<close>

theorem C8_unifyType_numeric_value:
  "(converted_int_kind v \<and> \<not> uint64_above_int64 v \<longrightarrow>
      int_value (unifyType v) = int_value v)
   \<and> (9223372036854775808 \<le> uint u \<longrightarrow>
      int_value (unifyType (VUint64 u)) = Some (uint u - 18446744073709551616))
   \<and> (\<exists>ws. unifyType (VInts xs) = VInt64s ws \<and> map sint ws = map sint xs)
   \<and> int_value (unifyType (VDuration d)) = Some (sgn (sint d) * (\<bar>sint d\<bar> div 1000000000))
   \<and> unifyType (VTime sec nsec) = VInt64 sec"
proof (intro conjI impI)
  assume "converted_int_kind v \<and> \<not> uint64_above_int64 v"
  then show "int_value (unifyType v) = int_value v"
    by (cases v) (simp_all add: sint_ucast_narrow sint_scast_narrow sint_of_low_uint)
next
  assume "9223372036854775808 \<le> uint u"
  then show "int_value (unifyType (VUint64 u)) = Some (uint u - 18446744073709551616)"
    by (simp add: sint_of_high_uint)
next
  have "map scast xs = xs" by (induction xs) simp_all
  then show "\<exists>ws. unifyType (VInts xs) = VInt64s ws \<and> map sint ws = map sint xs"
    by simp
next
  show "int_value (unifyType (VDuration d)) = Some (sgn (sint d) * (\<bar>sint d\<bar> div 1000000000))"
    by (simp add: sint_duration_seconds) (simp add: signed_divide_int_def Second_def)
next
  show "unifyType (VTime sec nsec) = VInt64 sec" by simp
qed

theorem C8_unifyType_numeric_value_witness:
  "converted_int_kind (VInt8 (- 3)) \<and> \<not> uint64_above_int64 (VInt8 (- 3))
   \<and> int_value (unifyType (VInt8 (- 3))) = int_value (VInt8 (- 3))
   \<and> 9223372036854775808 \<le> uint (- 1 :: 64 word)
   \<and> int_value (unifyType (VUint64 (- 1))) = Some (uint (- 1 :: 64 word) - 18446744073709551616)
   \<and> int_value (unifyType (VDuration (- 1500000000))) = Some (- 1)"
  using C8_unifyType_numeric_value [of "VInt8 (- 3)" "- 1" "[]" "- 1500000000" 0 0]
  by (simp add: uint_word_ariths)

text \<open>
  C9: \<^verbatim>\<open>unifyType\<close> is idempotent on every value, and it is the identity on the
  canonical kinds \<^verbatim>\<open>bool\<close>, \<^verbatim>\<open>string\<close>, \<^verbatim>\<open>int64\<close>, \<^verbatim>\<open>[]int64\<close> and \<^verbatim>\<open>[]string\<close>.
\<close>

theorem C9_unifyType_idempotent:
  "unifyType (unifyType v) = unifyType v \<and> (canonical v \<longrightarrow> unifyType v = v)"
  by (cases v) simp_all

theorem C9_unifyType_idempotent_witness:
  "canonical (VStrings [''a'', ''b''])
   \<and> unifyType (VStrings [''a'', ''b'']) = VStrings [''a'', ''b'']
   \<and> unifyType (unifyType (VStrings [''a'', ''b''])) = unifyType (VStrings [''a'', ''b''])"
  using C9_unifyType_idempotent [of "VStrings [''a'', ''b'']"] by simp


section \<open>Basic facts about indices and the loop\<close>



lemma node_at_in_set:
  assumes "node_at e i = Some n"
  shows "Some n \<in> set (nodes e)"
proof -
  from assms have "nat i < length (nodes e)" and "nodes e ! nat i = Some n"
    by (auto simp: node_at_def valid_index_def split: if_splits)
  then show ?thesis using nth_mem [of "nat i" "nodes e"] by simp
qed



lemma step_Stopped:
  assumes "valid_index (sf s) (sfTop s)"
    and "node_at e (sf s ! nat (sfTop s)) = Some curt"
    and "dispatch e ctx (sf s ! nat (sfTop s)) curt (s\<lparr>sfTop := i16 (sfTop s - 1)\<rparr>)
           = Stopped out tr"
  shows "step k e ctx s = Some (Done out tr)"
  using assms by (simp add: step_def)



lemma eval_loop_Stopped:
  assumes "sfTop s \<noteq> - 1" and "valid_index (sf s) (sfTop s)"
    and "node_at e (sf s ! nat (sfTop s)) = Some curt"
    and "dispatch e ctx (sf s ! nat (sfTop s)) curt (s\<lparr>sfTop := i16 (sfTop s - 1)\<rparr>)
           = Stopped out tr"
  shows "eval_loop (Suc k) e ctx s = Some (out, tr)"
  using step_Stopped [OF assms(2-4)] assms(1) by simp

section \<open>Selectors: lookup, errors and panics\<close>

lemma getNodeValues_append:
  "getNodeValues e ctx (xs @ ys) tr =
     (case getNodeValues e ctx xs tr of
        (Inl out, tr') \<Rightarrow> (Inl out, tr')
      | (Inr vs, tr') \<Rightarrow>
          (case getNodeValues e ctx ys tr' of
             (Inl out, tr'') \<Rightarrow> (Inl out, tr'')
           | (Inr ws, tr'') \<Rightarrow> (Inr (vs @ ws), tr'')))"
  by (induction xs arbitrary: tr) (auto split: option.splits prod.splits sum.splits)

lemma dispatch_selector:
  assumes "flag curt AND nodeTypeMask = selector_type"
  shows "dispatch e ctx i curt s =
           (case getSelectorValue ctx i curt (trace s) of
              (Inl out, tr) \<Rightarrow> Stopped out tr
            | (Inr res, tr) \<Rightarrow> Produced res (s\<lparr>trace := tr\<rparr>))"
  using assms
  by (simp add: dispatch_def selector_type_def fastOperator_type_def operator_type_def)

lemma dispatch_fastOperator:
  assumes "flag curt AND nodeTypeMask = fastOperator_type"
  shows "dispatch e ctx i curt s = dispatch_fastOperator e ctx i curt s"
  using assms by (simp add: dispatch_def)

text \<open>
  C7, as the specification states it, fails: when \<^verbatim>\<open>ctx.Get\<close> returns an error, \<^verbatim>\<open>Eval\<close>
  returns that very error (\<^verbatim>\<open>return nil, err\<close>). For the variable \<open>x\<close> and a context
  whose lookup fails with "db down", the error returned is the context's own and wraps
  nothing, whereas a failing operator is reported by an error that wraps the operator's.
\<close>

theorem C7_selector_error_counterexample:
  "Eval 2 var_x ctx_db_down = Some (Fail (External ''db down''), [GetCalled 0 7 ''x''])
   \<and> Unwrap (External ''db down'') = None
   \<and> Eval 2 call_failing ctx_db_down
       = Some (Fail (OperatorExecution (VString ''lookup'') ''db down''), [OpCalled 0 []])
   \<and> Unwrap (OperatorExecution (VString ''lookup'') ''db down'') = Some ''db down''"
  by code_simp

text \<open>
  C7, amended: whenever \<^verbatim>\<open>ctx.Get\<close> returns an error for a variable lookup, \<^verbatim>\<open>Eval\<close>
  fails at once with that error itself, unwrapped, and calls nothing after the failed
  lookup. This holds for a \<^verbatim>\<open>selector\<close> node taken from the stack frame, and for a
  selector leaf of a \<^verbatim>\<open>fastOperator\<close> once the leaves before it have been read.
\<close>

theorem C7_selector_error_returned_as_is:
  "(sfTop s \<noteq> - 1 \<and> valid_index (sf s) (sfTop s)
      \<and> node_at e (sf s ! nat (sfTop s)) = Some curt
      \<and> flag curt AND nodeTypeMask = selector_type
      \<and> value curt = VString name \<and> Get ctx (selKey curt) name = Inl err
    \<longrightarrow> eval_loop (Suc k) e ctx s
          = Some (Fail (External err),
                  trace s @ [GetCalled (sf s ! nat (sfTop s)) (selKey curt) name]))
   \<and> (sfTop s \<noteq> - 1 \<and> valid_index (sf s) (sfTop s)
      \<and> node_at e (sf s ! nat (sfTop s)) = Some curt
      \<and> flag curt AND nodeTypeMask = fastOperator_type \<and> 0 \<le> childCnt curt
      \<and> children curt = before @ i # after
      \<and> getNodeValues e ctx before (trace s) = (Inr vs, tr)
      \<and> node_at e i = Some child \<and> flag child AND nodeTypeMask \<noteq> constant_type
      \<and> value child = VString name \<and> Get ctx (selKey child) name = Inl err
    \<longrightarrow> eval_loop (Suc k) e ctx s
          = Some (Fail (External err), tr @ [GetCalled i (selKey child) name]))"
proof (intro conjI impI)
  assume a: "sfTop s \<noteq> - 1 \<and> valid_index (sf s) (sfTop s)
      \<and> node_at e (sf s ! nat (sfTop s)) = Some curt
      \<and> flag curt AND nodeTypeMask = selector_type
      \<and> value curt = VString name \<and> Get ctx (selKey curt) name = Inl err"
  then have "dispatch e ctx (sf s ! nat (sfTop s)) curt (s\<lparr>sfTop := i16 (sfTop s - 1)\<rparr>)
      = Stopped (Fail (External err))
          (trace s @ [GetCalled (sf s ! nat (sfTop s)) (selKey curt) name])"
    by (simp add: dispatch_selector getSelectorValue_def)
  with a show "eval_loop (Suc k) e ctx s
      = Some (Fail (External err),
              trace s @ [GetCalled (sf s ! nat (sfTop s)) (selKey curt) name])"
    by (intro eval_loop_Stopped [where curt = curt]) simp_all
next
  assume a: "sfTop s \<noteq> - 1 \<and> valid_index (sf s) (sfTop s)
      \<and> node_at e (sf s ! nat (sfTop s)) = Some curt
      \<and> flag curt AND nodeTypeMask = fastOperator_type \<and> 0 \<le> childCnt curt
      \<and> children curt = before @ i # after
      \<and> getNodeValues e ctx before (trace s) = (Inr vs, tr)
      \<and> node_at e i = Some child \<and> flag child AND nodeTypeMask \<noteq> constant_type
      \<and> value child = VString name \<and> Get ctx (selKey child) name = Inl err"
  then have "getNodeValues e ctx (children curt) (trace s)
      = (Inl (Fail (External err)), tr @ [GetCalled i (selKey child) name])"
    by (simp add: getNodeValues_append getNodeValue_def getSelectorValue_def)
  with a have "dispatch e ctx (sf s ! nat (sfTop s)) curt (s\<lparr>sfTop := i16 (sfTop s - 1)\<rparr>)
      = Stopped (Fail (External err)) (tr @ [GetCalled i (selKey child) name])"
    by (simp add: dispatch_fastOperator dispatch_fastOperator_def)
  with a show "eval_loop (Suc k) e ctx s
      = Some (Fail (External err), tr @ [GetCalled i (selKey child) name])"
    by (intro eval_loop_Stopped [where curt = curt]) simp_all
qed

lemma var_x_top:
  "sfTop (init_vm var_x) \<noteq> - 1 \<and> valid_index (sf (init_vm var_x)) (sfTop (init_vm var_x))
   \<and> node_at var_x (sf (init_vm var_x) ! nat (sfTop (init_vm var_x)))
       = Some (mk_node 2 0 0 0 7 (VString ''x'') None)"
  by (simp add: init_vm_def var_x_def stack_len_def valid_index_def node_at_def)

lemma x_plus_2_top:
  "sfTop (init_vm x_plus_2) \<noteq> - 1
   \<and> valid_index (sf (init_vm x_plus_2)) (sfTop (init_vm x_plus_2))
   \<and> node_at x_plus_2 (sf (init_vm x_plus_2) ! nat (sfTop (init_vm x_plus_2)))
       = Some (mk_node 4 2 1 0 0 (VString ''+'') (Some add_op))
   \<and> node_at x_plus_2 1 = Some (mk_node 2 0 0 0 7 (VString ''x'') None)"
  by (simp add: init_vm_def x_plus_2_def stack_len_def valid_index_def node_at_def)

theorem C7_selector_error_returned_as_is_witness:
  "Eval 1 var_x ctx_db_down = Some (Fail (External ''db down''), [GetCalled 0 7 ''x''])
   \<and> Eval 1 x_plus_2 ctx_db_down = Some (Fail (External ''db down''), [GetCalled 1 7 ''x''])"
proof -
  note sel = C7_selector_error_returned_as_is [THEN conjunct1, rule_format]
  note leaf = C7_selector_error_returned_as_is [THEN conjunct2, rule_format]
  have "eval_loop (Suc 0) var_x ctx_db_down (init_vm var_x)
      = Some (Fail (External ''db down''),
              trace (init_vm var_x)
                @ [GetCalled (sf (init_vm var_x) ! nat (sfTop (init_vm var_x)))
                     (selKey (mk_node 2 0 0 0 7 (VString ''x'') None)) ''x''])"
    by (rule sel) (simp add: var_x_top, simp add: mk_node_def nodeTypeMask_def
          selector_type_def ctx_db_down_def)
  moreover have "trace (init_vm var_x)
                @ [GetCalled (sf (init_vm var_x) ! nat (sfTop (init_vm var_x)))
                     (selKey (mk_node 2 0 0 0 7 (VString ''x'') None)) ''x'']
      = [GetCalled 0 7 ''x'']"
    by (simp add: init_vm_def stack_len_def var_x_def mk_node_def)
  ultimately have 1: "Eval 1 var_x ctx_db_down
      = Some (Fail (External ''db down''), [GetCalled 0 7 ''x''])"
    by (simp only: Eval_def One_nat_def)
  have "eval_loop (Suc 0) x_plus_2 ctx_db_down (init_vm x_plus_2)
      = Some (Fail (External ''db down''),
              [] @ [GetCalled 1 (selKey (mk_node 2 0 0 0 7 (VString ''x'') None)) ''x''])"
    by (rule leaf [where curt = "mk_node 4 2 1 0 0 (VString ''+'') (Some add_op)"
            and before = "[]" and after = "[2]" and vs = "[]"])
       (simp add: x_plus_2_top, simp add: mk_node_def nodeTypeMask_def fastOperator_type_def
          constant_type_def children_def i16_def init_vm_def ctx_db_down_def)
  then have 2: "Eval 1 x_plus_2 ctx_db_down
      = Some (Fail (External ''db down''), [GetCalled 1 7 ''x''])"
    by (simp only: Eval_def One_nat_def) (simp add: mk_node_def)
  from 1 2 show ?thesis by (rule conjI)
qed

text \<open>
  C10, as stated, fails for an expression that contains such a node without ever reaching
  it: in \<open>false and x\<close> the \<^verbatim>\<open>value\<close> of the selector \<open>x\<close> (node 2) is \<^verbatim>\<open>nil\<close>, the
  constant short-circuits, and \<^verbatim>\<open>Eval\<close> returns \<open>false\<close> normally.
\<close>

theorem C10_unreached_selector_counterexample:
  "node_at false_and_unnamed 2 = Some (mk_node 2 0 0 0 7 VNil None)
   \<and> getNodeType (mk_node 2 0 0 0 7 VNil None) = selector_type
   \<and> \<not> is_string (value (mk_node 2 0 0 0 7 VNil None))
   \<and> Eval 3 false_and_unnamed ctx_db_down = Some (Return (VBool False), [Entered 0])"
proof (intro conjI)
  show "node_at false_and_unnamed 2 = Some (mk_node 2 0 0 0 7 VNil None)"
    by (simp add: node_at_def valid_index_def false_and_unnamed_def)
  show "getNodeType (mk_node 2 0 0 0 7 VNil None) = selector_type"
    by (simp add: getNodeType_def mk_node_def nodeTypeMask_def selector_type_def)
  show "\<not> is_string (value (mk_node 2 0 0 0 7 VNil None))"
    by (simp add: mk_node_def)
  show "Eval 3 false_and_unnamed ctx_db_down = Some (Return (VBool False), [Entered 0])"
    by code_simp
qed

lemma getSelectorValue_not_string:
  "\<not> is_string (value n) \<Longrightarrow> getSelectorValue ctx i n tr = (Inl Panic, tr)"
  by (cases "value n") (simp_all add: getSelectorValue_def)

text \<open>
  C10, amended: in the node-record variant, whenever evaluation reaches a \<^verbatim>\<open>selector\<close>
  node whose \<^verbatim>\<open>value\<close> is not a string, taken from the stack frame or read as a leaf of
  a \<^verbatim>\<open>fastOperator\<close> after the leaves before it, \<^verbatim>\<open>Eval\<close> does not return: the type
  assertion panics, before \<^verbatim>\<open>ctx.Get\<close> is called for that node.
\<close>

theorem C10_selector_value_assertion_panics:
  "(sfTop s \<noteq> - 1 \<and> valid_index (sf s) (sfTop s)
      \<and> node_at e (sf s ! nat (sfTop s)) = Some curt
      \<and> getNodeType curt = selector_type \<and> \<not> is_string (value curt)
    \<longrightarrow> eval_loop (Suc k) e ctx s = Some (Panic, trace s))
   \<and> (sfTop s \<noteq> - 1 \<and> valid_index (sf s) (sfTop s)
      \<and> node_at e (sf s ! nat (sfTop s)) = Some curt
      \<and> getNodeType curt = fastOperator_type \<and> 0 \<le> childCnt curt
      \<and> children curt = before @ i # after
      \<and> getNodeValues e ctx before (trace s) = (Inr vs, tr)
      \<and> node_at e i = Some child \<and> getNodeType child \<noteq> constant_type
      \<and> \<not> is_string (value child)
    \<longrightarrow> eval_loop (Suc k) e ctx s = Some (Panic, tr))"
proof (intro conjI impI)
  assume a: "sfTop s \<noteq> - 1 \<and> valid_index (sf s) (sfTop s)
      \<and> node_at e (sf s ! nat (sfTop s)) = Some curt
      \<and> getNodeType curt = selector_type \<and> \<not> is_string (value curt)"
  then have "dispatch e ctx (sf s ! nat (sfTop s)) curt (s\<lparr>sfTop := i16 (sfTop s - 1)\<rparr>)
      = Stopped Panic (trace s)"
    by (simp add: dispatch_selector getSelectorValue_not_string getNodeType_def)
  with a show "eval_loop (Suc k) e ctx s = Some (Panic, trace s)"
    by (intro eval_loop_Stopped [where curt = curt]) simp_all
next
  assume a: "sfTop s \<noteq> - 1 \<and> valid_index (sf s) (sfTop s)
      \<and> node_at e (sf s ! nat (sfTop s)) = Some curt
      \<and> getNodeType curt = fastOperator_type \<and> 0 \<le> childCnt curt
      \<and> children curt = before @ i # after
      \<and> getNodeValues e ctx before (trace s) = (Inr vs, tr)
      \<and> node_at e i = Some child \<and> getNodeType child \<noteq> constant_type
      \<and> \<not> is_string (value child)"
  then have "getNodeValues e ctx (children curt) (trace s) = (Inl Panic, tr)"
    by (simp add: getNodeValues_append getNodeValue_def getSelectorValue_not_string
          getNodeType_def)
  with a have "dispatch e ctx (sf s ! nat (sfTop s)) curt (s\<lparr>sfTop := i16 (sfTop s - 1)\<rparr>)
      = Stopped Panic tr"
    by (simp add: dispatch_fastOperator dispatch_fastOperator_def getNodeType_def)
  with a show "eval_loop (Suc k) e ctx s = Some (Panic, tr)"
    by (intro eval_loop_Stopped [where curt = curt]) simp_all
qed

lemma var_unnamed_top:
  "sfTop (init_vm var_unnamed) \<noteq> - 1
   \<and> valid_index (sf (init_vm var_unnamed)) (sfTop (init_vm var_unnamed))
   \<and> node_at var_unnamed (sf (init_vm var_unnamed) ! nat (sfTop (init_vm var_unnamed)))
       = Some (mk_node 2 0 0 0 7 VNil None)"
  by (simp add: init_vm_def var_unnamed_def stack_len_def valid_index_def node_at_def)

lemma unnamed_plus_2_top:
  "sfTop (init_vm unnamed_plus_2) \<noteq> - 1
   \<and> valid_index (sf (init_vm unnamed_plus_2)) (sfTop (init_vm unnamed_plus_2))
   \<and> node_at unnamed_plus_2 (sf (init_vm unnamed_plus_2) ! nat (sfTop (init_vm unnamed_plus_2)))
       = Some (mk_node 4 2 1 0 0 (VString ''+'') (Some add_op))
   \<and> node_at unnamed_plus_2 1 = Some (mk_node 2 0 0 0 7 VNil None)"
  by (simp add: init_vm_def unnamed_plus_2_def stack_len_def valid_index_def node_at_def)

theorem C10_selector_value_assertion_panics_witness:
  "Eval 1 var_unnamed ctx_x_int32 = Some (Panic, [])
   \<and> Eval 1 unnamed_plus_2 ctx_x_int32 = Some (Panic, [])"
proof -
  note sel = C10_selector_value_assertion_panics [THEN conjunct1, rule_format]
  note leaf = C10_selector_value_assertion_panics [THEN conjunct2, rule_format]
  have "eval_loop (Suc 0) var_unnamed ctx_x_int32 (init_vm var_unnamed)
      = Some (Panic, trace (init_vm var_unnamed))"
    by (rule sel [where curt = "mk_node 2 0 0 0 7 VNil None"])
       (simp add: var_unnamed_top, simp add: mk_node_def getNodeType_def nodeTypeMask_def
          selector_type_def)
  then have 1: "Eval 1 var_unnamed ctx_x_int32 = Some (Panic, [])"
    by (simp only: Eval_def One_nat_def) (simp add: init_vm_def)
  have "eval_loop (Suc 0) unnamed_plus_2 ctx_x_int32 (init_vm unnamed_plus_2) = Some (Panic, [])"
    by (rule leaf [where curt = "mk_node 4 2 1 0 0 (VString ''+'') (Some add_op)"
            and before = "[]" and after = "[2]" and vs = "[]" and i = 1
            and child = "mk_node 2 0 0 0 7 VNil None"])
       (simp add: unnamed_plus_2_top, simp add: mk_node_def getNodeType_def nodeTypeMask_def
          fastOperator_type_def constant_type_def children_def i16_def init_vm_def)
  then have 2: "Eval 1 unnamed_plus_2 ctx_x_int32 = Some (Panic, [])"
    by (simp only: Eval_def One_nat_def)
  from 1 2 show ?thesis by (rule conjI)
qed

text \<open>
  C2 on the failing input: the variable \<open>x\<close>, bound to the \<^verbatim>\<open>int32\<close> 3. The bytecode
  variant calls \<^verbatim>\<open>ctx.Get\<close> with the key and the empty name and returns the \<^verbatim>\<open>int32\<close>
  as the context gave it; the node-record variant passes the key and the name \<open>x\<close> and
  returns the unified \<^verbatim>\<open>int64\<close>.
\<close>

theorem C2_bytecode_selector_not_unified:
  "Eval_bc 2 var_x_bc ctx_x_int32 = Some (Return (VInt32 3), [GetCalled 0 7 ''''])
   \<and> Eval 2 var_x ctx_x_int32 = Some (Return (VInt64 3), [GetCalled 0 7 ''x''])
   \<and> \<not> canonical (VInt32 3)"
  by code_simp

section \<open>The cancellation token\<close>

text \<open>
  C6, as the specification states it, fails: no statement of \<^verbatim>\<open>Eval\<close> reads \<^verbatim>\<open>ctx.Ctx\<close>.
  With a token that is cancelled before the first node is dispatched, the constant
  \<open>true\<close> still evaluates to \<open>true\<close>.
\<close>

theorem C6_cancelled_token_counterexample:
  "Ctx ctx_cancelled = Cancelled
   \<and> Eval 2 const_true ctx_cancelled = Some (Return (VBool True), [])"
  by code_simp

lemma getSelectorValue_token [simp]:
  "getSelectorValue (ctx\<lparr>Ctx := c\<rparr>) i n tr = getSelectorValue ctx i n tr"
  by (simp add: getSelectorValue_def cong: Value.case_cong)

lemma getNodeValue_token [simp]:
  "getNodeValue (ctx\<lparr>Ctx := c\<rparr>) i n tr = getNodeValue ctx i n tr"
  by (simp add: getNodeValue_def)

lemma getNodeValues_token [simp]:
  "getNodeValues e (ctx\<lparr>Ctx := c\<rparr>) js tr = getNodeValues e ctx js tr"
  by (induction js arbitrary: tr) (simp_all split: option.splits prod.splits sum.splits)

lemma token_blind_node:
  assumes "token_blind e" and "node_at e i = Some n" and "operator n = Some f"
  shows "f (ctx\<lparr>Ctx := c\<rparr>) param = f ctx param"
proof -
  from assms(2) have "Some n \<in> set (nodes e)" by (rule node_at_in_set)
  with assms(1,3) have "ignores_token f"
    by (auto simp: token_blind_def list_all_iff split: option.splits)
  then show ?thesis by (simp add: ignores_token_def)
qed

lemma call_operator_token:
  assumes "token_blind e" and "node_at e i = Some n"
  shows "call_operator (ctx\<lparr>Ctx := c\<rparr>) j n param tr = call_operator ctx j n param tr"
proof (cases "operator n")
  case None
  then show ?thesis by (simp add: call_operator_def)
next
  case (Some f)
  with token_blind_node [OF assms Some] show ?thesis by (simp add: call_operator_def)
qed

lemma dispatch_fastOperator_token:
  assumes "token_blind e" and "node_at e i = Some n"
  shows "dispatch_fastOperator e (ctx\<lparr>Ctx := c\<rparr>) i n s = dispatch_fastOperator e ctx i n s"
  by (simp add: dispatch_fastOperator_def call_operator_token [OF assms]
        cong: if_cong prod.case_cong sum.case_cong)

lemma dispatch_operator_token:
  assumes "token_blind e" and "node_at e i = Some n"
  shows "dispatch_operator (ctx\<lparr>Ctx := c\<rparr>) i n s = dispatch_operator ctx i n s"
  by (simp add: dispatch_operator_def call_operator_token [OF assms] Let_def
        cong: if_cong prod.case_cong sum.case_cong option.case_cong)

lemma dispatch_token:
  assumes "token_blind e" and "node_at e i = Some n"
  shows "dispatch e (ctx\<lparr>Ctx := c\<rparr>) i n s = dispatch e ctx i n s"
  by (simp add: dispatch_def dispatch_fastOperator_token [OF assms]
        dispatch_operator_token [OF assms] Let_def cong: if_cong)

lemma step_token:
  assumes "token_blind e"
  shows "step k e (ctx\<lparr>Ctx := c\<rparr>) s = step k e ctx s"
proof (cases "node_at e (sf s ! nat (sfTop s))")
  case None
  then show ?thesis by (simp add: step_def)
next
  case (Some curt)
  then show ?thesis by (simp add: step_def dispatch_token [OF assms Some])
qed

lemma eval_loop_token:
  assumes "token_blind e"
  shows "eval_loop k e (ctx\<lparr>Ctx := c\<rparr>) s = eval_loop k e ctx s"
  using assms
  by (induction k arbitrary: s) (simp_all add: step_token split: option.splits flow.splits)

text \<open>
  C6, amended: the VM never samples the cancellation token. Whatever the state of the
  token, \<^verbatim>\<open>Eval\<close> dispatches the same nodes, makes the same calls and ends the same way,
  as long as the operators it calls do not read the token themselves (the token reaches
  them inside \<open>ctx\<close>); a cancelled token alone never makes \<^verbatim>\<open>Eval\<close> fail.
\<close>

theorem C6_token_never_sampled:
  "token_blind e \<Longrightarrow> Eval fuel e (ctx\<lparr>Ctx := c\<rparr>) = Eval fuel e ctx"
  by (simp add: Eval_def eval_loop_token)

theorem C6_token_never_sampled_witness:
  "token_blind false_and_expensive
   \<and> Eval 3 false_and_expensive (ctx_db_down\<lparr>Ctx := Cancelled\<rparr>)
       = Eval 3 false_and_expensive ctx_db_down
   \<and> Eval 3 false_and_expensive ctx_db_down = Some (Return (VBool False), [Entered 0])"
proof -
  have 1: "token_blind false_and_expensive"
    by (simp add: token_blind_def false_and_expensive_def mk_node_def ignores_token_def
          and_op_def expensive_def)
  have 2: "Eval 3 false_and_expensive ctx_db_down = Some (Return (VBool False), [Entered 0])"
    by code_simp
  from 1 C6_token_never_sampled [OF 1, where fuel = 3 and ctx = ctx_db_down and c = Cancelled] 2
  show ?thesis by simp
qed

section \<open>The short-circuit rewind\<close>





section \<open>Calls are made only for nodes the stack frame leads to\<close>





subsection \<open>The stack frame under pop and push\<close>








subsection \<open>The events each part of the dispatch appends\<close>

lemma calls_within_Nil [simp]: "calls_within A []"
  by (simp add: calls_within_def)

lemma calls_within_append [simp]:
  "calls_within A (xs @ ys) \<longleftrightarrow> calls_within A xs \<and> calls_within A ys"
  by (auto simp: calls_within_def)


lemma entered_append [simp]: "entered (xs @ ys) = entered xs @ entered ys"
  by (induction xs rule: entered.induct) simp_all







subsection \<open>Each branch of the switch\<close>

lemma dispatch_sound_Panic [simp]: "dispatch_sound A R s0 (Stopped out (trace s0))"
  by (simp add: dispatch_sound_def)




lemma live_update_other [simp]:
  "live (s\<lparr>maxIdx := m\<rparr>) = live s" "live (s\<lparr>trace := tr\<rparr>) = live s"
  "live (s\<lparr>scTriggered := b\<rparr>) = live s" "live (s\<lparr>osTop := t\<rparr>) = live s"
  "live (s\<lparr>os := vs\<rparr>) = live s"
  by (simp_all add: live_def)







subsection \<open>The rewind only truncates\<close>






section \<open>Short-circuit laziness\<close>








section \<open>The conditional\<close>








section \<open>The two variants on one expression\<close>

subsection \<open>The flag word and the lookups of the bytecode\<close>









lemma sim_read_simps [simp]:
  "sim_read (Inl out', tr') (Inl out, tr)
     = (forget_operand out' = forget_operand out \<and> map forget_name tr' = map forget_name tr)"
  "sim_read (Inr v', tr') (Inr v, tr) = (v' = v \<and> map forget_name tr' = map forget_name tr)"
  "sim_read (Inl out', tr') (Inr v, tr) = False"
  "sim_read (Inr v', tr') (Inl out, tr) = False"
  by (simp_all add: sim_read_def)


















lemma akin_sim: "akin s' s \<Longrightarrow> sim s' s \<and> in_range s"
  by (simp add: akin_def)


lemma forget_operand_idem [simp]: "forget_operand (forget_operand out) = forget_operand out"
  by (cases out rule: forget_operand.cases) simp_all


























end
